theory Spec2Isabelle
  imports Main
begin

section \<open>Python values used by the builder\<close>

text \<open>
  The embedding covers \<^verbatim>\<open>builder/generator.py\<close>: the functions \<^verbatim>\<open>run\<close>
  and \<^verbatim>\<open>launch\<close> and the class \<^verbatim>\<open>Payload\<close>.  Python integers are
  \<^typ>\<open>int\<close>, strings are \<^typ>\<open>string\<close>, exceptions are values of the
  datatype \<open>exn\<close> and a computation that may raise returns \<open>exn + 'a\<close> with
  \<open>Inl\<close> for the raised exception.
\<close>

datatype exn =
    AssertionError string
  | IndexError string
  | ValueError string
  | ZeroDivisionError string
  | SystemExit int
  | OtherError string

text \<open>
  Python's slice \<^verbatim>\<open>xs[a:b]\<close> on a list, for arbitrary integer bounds: a negative
  bound counts from the end, and both bounds are clamped to \<open>[0, len]\<close>.
\<close>

definition slice_bound :: "int \<Rightarrow> int \<Rightarrow> nat" where
  "slice_bound n i = (if i < 0 then nat (max 0 (n + i)) else nat (min i n))"

definition py_slice :: "'a list \<Rightarrow> int \<Rightarrow> int \<Rightarrow> 'a list" where
  "py_slice xs a b =
     (let n = int (length xs); lo = slice_bound n a; hi = slice_bound n b
      in take (hi - lo) (drop lo xs))"

text \<open>
  \<^verbatim>\<open>int(math.ceil(a / b))\<close> for integers \<open>a\<close> and \<open>b\<close>.  The source divides
  as floating point numbers; the quotient is taken exactly here, which agrees with the
  source as long as the operands and the quotient are exactly representable.  Division
  by zero raises.
\<close>

definition ceil_div :: "int \<Rightarrow> int \<Rightarrow> exn + int" where
  "ceil_div a b =
     (if b = 0 then Inl (ZeroDivisionError ''division by zero'') else Inr (- ((- a) div b)))"

text \<open>Python's \<^verbatim>\<open>str\<close> on a non-negative integer, and on any integer.\<close>

definition digit_char :: "nat \<Rightarrow> char" where
  "digit_char d = char_of (48 + d)"

fun str_nat :: "nat \<Rightarrow> string" where
  "str_nat n = (if n < 10 then [digit_char n] else str_nat (n div 10) @ [digit_char (n mod 10)])"


declare str_nat.simps [simp del]

section \<open>The batch scheduler\<close>

text \<open>
  Modelled from the spec: the class \<^verbatim>\<open>ComputationScheduler\<close> of the module
  \<^verbatim>\<open>scheduler\<close>, which \<^verbatim>\<open>generator.py\<close> imports and which is not among the
  source files.  The constructor stores its four arguments (the fields carry the prefix
  \<open>sched_\<close> to keep them apart from the command-line arguments of the same names).
\<close>

record scheduler =
  sched_batchSize :: int
  sched_startBatch :: "int option"
  sched_numBatches :: int
  sched_identifiers :: "string list"

definition ComputationScheduler :: "int \<Rightarrow> int option \<Rightarrow> int \<Rightarrow> string list \<Rightarrow> scheduler" where
  "ComputationScheduler bs sb nb ids =
     \<lparr>sched_batchSize = bs, sched_startBatch = sb, sched_numBatches = nb,
      sched_identifiers = ids\<rparr>"

text \<open>
  Modelled from the spec: \<^verbatim>\<open>process(batchIndex)\<close> returns the slice
  \<^verbatim>\<open>identifiers[batchIndex*batchSize : (batchIndex+1)*batchSize]\<close> and fails with an
  \<^verbatim>\<open>IndexError\<close>-kind condition when the index is outside \<open>[0, numBatches)\<close>.
\<close>

definition process :: "scheduler \<Rightarrow> int \<Rightarrow> exn + string list" where
  "process s i =
     (if i < 0 \<or> sched_numBatches s \<le> i then Inl (IndexError ''batch index out of range'')
      else Inr (py_slice (sched_identifiers s) (i * sched_batchSize s)
                  ((i + 1) * sched_batchSize s)))"

text \<open>The identifiers that \<^verbatim>\<open>process(i)\<close> returns; none when it fails.\<close>

definition batch_of :: "scheduler \<Rightarrow> int \<Rightarrow> string list" where
  "batch_of s i = (case process s i of Inl _ \<Rightarrow> [] | Inr b \<Rightarrow> b)"

text \<open>
  Modelled from the spec: the number of batches the identifier list really has,
  \<open>ceil(len(identifiers) / batchSize)\<close>, to which the run window is clipped
  (none when the batch size is zero).
\<close>

definition availableBatches :: "scheduler \<Rightarrow> int" where
  "availableBatches s =
     (case ceil_div (int (length (sched_identifiers s))) (sched_batchSize s) of
        Inl _ \<Rightarrow> 0
      | Inr n \<Rightarrow> n)"

text \<open>
  Modelled from the spec: \<^verbatim>\<open>getBatches()\<close> is the run window
  \<^verbatim>\<open>range(startBatch or 0, numBatches)\<close>, clipped to the available batches.
  Python's \<^verbatim>\<open>startBatch or 0\<close> is \<open>0\<close> when \<^verbatim>\<open>startBatch\<close> is
  \<^verbatim>\<open>None\<close> (or zero).
\<close>

definition getBatches :: "scheduler \<Rightarrow> int list" where
  "getBatches s =
     (let start = (case sched_startBatch s of None \<Rightarrow> 0 | Some b \<Rightarrow> b)
      in filter (\<lambda>i. i < availableBatches s) [start .. sched_numBatches s - 1])"

section \<open>Configuration, collaborators and the world\<close>

text \<open>
  The command-line arguments (\<^verbatim>\<open>argparse.Namespace\<close>) that \<^verbatim>\<open>run\<close> and
  \<^verbatim>\<open>launch\<close> read.  A temperature is the text that the f-string
  \<^verbatim>\<open>f"sims{temp}K"\<close> interpolates.
\<close>

record args =
  finaldatasetPath :: string
  pdbDir :: string
  gpugridResultsPath :: string
  concatTrajPath :: string
  molFilter :: string
  temperatures :: "string list"
  numReplicas :: int
  trajAttrs :: "string list"
  trajDatasets :: "string list"
  pdbAttrs :: "string list"
  pdbDatasets :: "string list"
  batchSize :: int
  startBatch :: "int option"
  toRunBatches :: "int option"
  maxWorkers :: "int option"

text \<open>
  The classes \<^verbatim>\<open>TrajectoryFileManager\<close> and \<^verbatim>\<open>molAnalyzer\<close> are imported
  from modules that are not among the source files; the builder is parametric in them.
  \<open>'m\<close> is the state of a trajectory file manager, \<open>'a\<close> the state of an analyzer
  object and \<open>'d\<close> what one call of \<^verbatim>\<open>write_toH5\<close> serialises into the group it
  is given.  Every method may raise; the methods of the analyzer return its new state.
  \<^verbatim>\<open>hasattr(Analyzer, "forces")\<close> and \<^verbatim>\<open>hasattr(Analyzer, "traj")\<close> are
  observations of the analyzer state.
\<close>

record ('m, 'a, 'd) collab =
  TrajectoryFileManager :: "string \<Rightarrow> string \<Rightarrow> exn + 'm"
  getTrajFiles :: "'m \<Rightarrow> string \<Rightarrow> string \<Rightarrow> nat \<Rightarrow> exn + string list"
  molAnalyzer :: "string \<Rightarrow> string \<Rightarrow> exn + 'a"
  computeProperties :: "'a \<Rightarrow> exn + 'a"
  trajAnalysis :: "'a \<Rightarrow> string list \<Rightarrow> exn + 'a"
  hasattr_forces :: "'a \<Rightarrow> bool"
  hasattr_traj :: "'a \<Rightarrow> bool"
  write_toH5_replica :: "'a \<Rightarrow> string list \<Rightarrow> string list \<Rightarrow> exn + ('a \<times> 'd)"
  write_toH5_mol :: "'a \<Rightarrow> string list \<Rightarrow> string list \<Rightarrow> exn + ('a \<times> 'd)"

text \<open>
  What the program does to the outside is recorded as a trace of events: the records
  handed to the logger, what is printed, the groups created in the scratch archive
  (by their path below the root), the calls of the collaborators, and the copy that
  publishes a scratch archive.
\<close>

datatype call =
    NewTrajectoryFileManager string string
  | GetTrajFiles string string nat
  | NewMolAnalyzer string string
  | ComputeProperties
  | TrajAnalysis "string list"
  | WriteToH5Replica "string list" "string list"
  | WriteToH5Mol "string list" "string list"

datatype event =
    LogInfo string
  | LogWarning string
  | LogError string
  | Print string
  | CreateGroup "string list"
  | Collab call
  | CopyFile string

text \<open>
  An HDF5 archive as the builder lays it out: root attributes, and below the root one
  group per molecule, holding one group per temperature, holding one group per replica.
  A replica group holds what \<^verbatim>\<open>write_toH5\<close> serialised into it, or nothing.
\<close>

record 'd mol_group =
  temp_groups :: "(string \<times> (string \<times> 'd option) list) list"
  mol_data :: "'d option"

record 'd h5file =
  h5attrs :: "(string \<times> string) list"
  h5groups :: "(string \<times> 'd mol_group) list"

datatype 'd fcontent = Dataset "'d h5file" | Opaque

type_synonym 'd files = "string \<rightharpoonup> 'd fcontent"

definition exists :: "'d files \<Rightarrow> string \<Rightarrow> bool" where
  "exists fs p = (fs p \<noteq> None)"

text \<open>
  \<^verbatim>\<open>os.path.join\<close> of two components (POSIX): an absolute second component
  replaces the first; otherwise a slash is put between them unless the first is empty
  or ends with one.
\<close>

definition opj :: "string \<Rightarrow> string \<Rightarrow> string" where
  "opj a b =
     (if b \<noteq> [] \<and> hd b = CHR ''/'' then b
      else if a = [] \<or> last a = CHR ''/'' then a @ b
      else a @ ''/'' @ b)"

text \<open>
  \<^verbatim>\<open>s.replace(old, new)\<close> for a non-empty \<open>old\<close>: every non-overlapping
  occurrence, from the left.
\<close>

function replace :: "string \<Rightarrow> string \<Rightarrow> string \<Rightarrow> string" where
  "replace old new s =
     (if s = [] \<or> old = [] then s
      else if take (length old) s = old then new @ replace old new (drop (length old) s)
      else hd s # replace old new (tl s))"
  by pat_completeness auto
termination
  by (relation "measure (\<lambda>(old, new, s). length s)") auto

declare replace.simps [simp del]

text \<open>
  \<^verbatim>\<open>group.create_group(name)\<close> of h5py raises \<^verbatim>\<open>ValueError\<close> when the parent
  already has a member of that name.
\<close>

definition create_group :: "string \<Rightarrow> (string \<times> 'g) list \<Rightarrow> exn + unit" where
  "create_group name members =
     (if name \<in> fst ` set members
      then Inl (ValueError ''Unable to create group (name already exists)'')
      else Inr ())"



section \<open>The molecule builder: \<^verbatim>\<open>run\<close>\<close>

text \<open>
  The names of the groups and files of one molecule, as the f-strings of the source
  build them.
\<close>

definition temp_group_name :: "string \<Rightarrow> string" where
  "temp_group_name temp = ''sims'' @ temp @ ''K''"

definition resFile :: "args \<Rightarrow> string \<Rightarrow> string" where
  "resFile a pdb = opj (finaldatasetPath a) (''cath_dataset_'' @ pdb @ ''.h5'')"

definition pdbFilePath :: "args \<Rightarrow> string \<Rightarrow> string" where
  "pdbFilePath a pdb = pdbDir a @ ''/'' @ pdb @ ''.pdb''"

text \<open>
  The body of the loop over the replicas (lines 64 to 83).  The iteration creates the
  replica group, asks for the trajectory files inside a \<^verbatim>\<open>try\<close> whose handler
  catches \<^verbatim>\<open>AssertionError\<close> only, and then calls the analyzer outside the
  \<^verbatim>\<open>try\<close>.  It returns the analyzer, the members of the temperature group (the
  group of this replica added, with what was written into it) and the events of the
  iteration; an exception that leaves the iteration comes with the events up to it.
\<close>

definition replica_step ::
  "('m, 'a, 'd) collab \<Rightarrow> args \<Rightarrow> 'm \<Rightarrow> string \<Rightarrow> string \<Rightarrow> 'a \<Rightarrow> (string \<times> 'd option) list \<Rightarrow> nat
     \<Rightarrow> (exn + 'a \<times> (string \<times> 'd option) list) \<times> event list" where
  "replica_step c a mgr pdb temp an members repl =
     (case create_group (str_nat repl) members of
        Inl e \<Rightarrow> (Inl e, [])
      | Inr _ \<Rightarrow>
          let ev0 = [CreateGroup [pdb, temp_group_name temp, str_nat repl],
                     Collab (GetTrajFiles pdb temp repl)]
          in
          (case getTrajFiles c mgr pdb temp repl of
             Inl (AssertionError m) \<Rightarrow>
               (Inr (an, members @ [(str_nat repl, None)]), ev0 @ [LogError m])
           | Inl e \<Rightarrow> (Inl e, ev0)
           | Inr trajFiles \<Rightarrow>
               let dcdFiles = map (replace ''9.xtc'' ''8.vel.dcd'') trajFiles;
                   ev1 = ev0 @ [Collab ComputeProperties]
               in
               (case computeProperties c an of
                  Inl e \<Rightarrow> (Inl e, ev1)
                | Inr an1 \<Rightarrow>
                    let ev2 = ev1 @ [Collab (TrajAnalysis trajFiles)] in
                    (case trajAnalysis c an1 trajFiles of
                       Inl e \<Rightarrow> (Inl e, ev2)
                     | Inr an2 \<Rightarrow>
                         let ev3 = ev2 @ [Collab (TrajAnalysis dcdFiles)] in
                         (case trajAnalysis c an2 dcdFiles of
                            Inl e \<Rightarrow> (Inl e, ev3)
                          | Inr an3 \<Rightarrow>
                              if \<not> hasattr_forces c an3 \<or> \<not> hasattr_traj c an3
                              then (Inr (an3, members @ [(str_nat repl, None)]),
                                    ev3 @ [LogError (''forces or traj not found for '' @ pdb
                                             @ '' '' @ temp @ '' '' @ str_nat repl)])
                              else
                                let ev4 = ev3 @ [Collab (WriteToH5Replica (trajAttrs a)
                                                           (trajDatasets a))]
                                in
                                (case write_toH5_replica c an3 (trajAttrs a) (trajDatasets a) of
                                   Inl e \<Rightarrow> (Inl e, ev4)
                                 | Inr (an4, d) \<Rightarrow>
                                     (Inr (an4, members @ [(str_nat repl, Some d)]), ev4)))))))"

text \<open>The loop \<^verbatim>\<open>for repl in range(args.numReplicas)\<close>, over the replicas left.\<close>

fun replica_loop ::
  "('m, 'a, 'd) collab \<Rightarrow> args \<Rightarrow> 'm \<Rightarrow> string \<Rightarrow> string \<Rightarrow> 'a \<Rightarrow> (string \<times> 'd option) list
     \<Rightarrow> nat list \<Rightarrow> (exn + 'a \<times> (string \<times> 'd option) list) \<times> event list" where
  "replica_loop c a mgr pdb temp an members [] = (Inr (an, members), [])"
| "replica_loop c a mgr pdb temp an members (repl # repls) =
     (case replica_step c a mgr pdb temp an members repl of
        (Inl e, ev) \<Rightarrow> (Inl e, ev)
      | (Inr (an', members'), ev) \<Rightarrow>
          (case replica_loop c a mgr pdb temp an' members' repls of
             (r, ev') \<Rightarrow> (r, ev @ ev')))"

text \<open>
  The body of the loop over the temperatures (lines 62 to 83): create the group of the
  temperature, then run the replicas \<^verbatim>\<open>range(args.numReplicas)\<close> in it.
\<close>

definition temp_step ::
  "('m, 'a, 'd) collab \<Rightarrow> args \<Rightarrow> 'm \<Rightarrow> string \<Rightarrow> 'a
     \<Rightarrow> (string \<times> (string \<times> 'd option) list) list \<Rightarrow> string
     \<Rightarrow> (exn + 'a \<times> (string \<times> (string \<times> 'd option) list) list) \<times> event list" where
  "temp_step c a mgr pdb an tgroups temp =
     (case create_group (temp_group_name temp) tgroups of
        Inl e \<Rightarrow> (Inl e, [])
      | Inr _ \<Rightarrow>
          (case replica_loop c a mgr pdb temp an [] [0 ..< nat (numReplicas a)] of
             (Inl e, ev) \<Rightarrow> (Inl e, CreateGroup [pdb, temp_group_name temp] # ev)
           | (Inr (an', members), ev) \<Rightarrow>
               (Inr (an', tgroups @ [(temp_group_name temp, members)]),
                CreateGroup [pdb, temp_group_name temp] # ev)))"

fun temp_loop ::
  "('m, 'a, 'd) collab \<Rightarrow> args \<Rightarrow> 'm \<Rightarrow> string \<Rightarrow> 'a
     \<Rightarrow> (string \<times> (string \<times> 'd option) list) list \<Rightarrow> string list
     \<Rightarrow> (exn + 'a \<times> (string \<times> (string \<times> 'd option) list) list) \<times> event list" where
  "temp_loop c a mgr pdb an tgroups [] = (Inr (an, tgroups), [])"
| "temp_loop c a mgr pdb an tgroups (temp # temps) =
     (case temp_step c a mgr pdb an tgroups temp of
        (Inl e, ev) \<Rightarrow> (Inl e, ev)
      | (Inr (an', tgroups'), ev) \<Rightarrow>
          (case temp_loop c a mgr pdb an' tgroups' temps of
             (r, ev') \<Rightarrow> (r, ev @ ev')))"

text \<open>
  The three ways in which an iteration of the loop over the identifiers ends without an
  exception: \<^verbatim>\<open>continue\<close> at line 53 (the output exists), \<^verbatim>\<open>continue\<close> at
  line 57 (the structure file is missing), and the copy at line 89.
\<close>

datatype outcome = SkippedExists | SkippedMissingInput | Written

text \<open>
  The body of the loop over the identifiers of a batch (lines 47 to 89).  The scratch
  archive is a temporary file of a fresh name, opened for writing before any check and
  removed when the iteration ends, also by \<^verbatim>\<open>continue\<close> or an exception; it is
  a local value here, and only its copy to \<^verbatim>\<open>resFile\<close> reaches the files.
\<close>

definition build_pdb ::
  "('m, 'a, 'd) collab \<Rightarrow> args \<Rightarrow> 'm \<Rightarrow> string \<Rightarrow> 'd files
     \<Rightarrow> (exn + outcome) \<times> 'd files \<times> event list" where
  "build_pdb c a mgr pdb fs =
     (if exists fs (resFile a pdb)
      then (Inr SkippedExists, fs,
            [LogInfo (''h5py dataset for '' @ pdb @ '' already exists, skipping'')])
      else if \<not> exists fs (pdbFilePath a pdb)
      then (Inr SkippedMissingInput, fs, [LogWarning (pdb @ '' does not exist'')])
      else
        (case create_group pdb ([] :: (string \<times> 'd mol_group) list) of
           Inl e \<Rightarrow> (Inl e, fs, [])
         | Inr _ \<Rightarrow>
             let ev0 = [CreateGroup [pdb],
                        Collab (NewMolAnalyzer (pdbFilePath a pdb) (molFilter a))]
             in
             (case molAnalyzer c (pdbFilePath a pdb) (molFilter a) of
                Inl e \<Rightarrow> (Inl e, fs, ev0)
              | Inr an \<Rightarrow>
                  (case temp_loop c a mgr pdb an [] (temperatures a) of
                     (Inl e, ev) \<Rightarrow> (Inl e, fs, ev0 @ ev)
                   | (Inr (an', tgroups), ev) \<Rightarrow>
                       let ev1 = ev0 @ ev @ [Collab (WriteToH5Mol (pdbAttrs a) (pdbDatasets a))]
                       in
                       (case write_toH5_mol c an' (pdbAttrs a) (pdbDatasets a) of
                          Inl e \<Rightarrow> (Inl e, fs, ev1)
                        | Inr (an'', d) \<Rightarrow>
                            (Inr Written,
                             fs(resFile a pdb \<mapsto> Dataset
                                  \<lparr>h5attrs = [(''layout'', ''cath-dataset-only-protein'')],
                                   h5groups = [(pdb, \<lparr>temp_groups = tgroups,
                                                      mol_data = Some d\<rparr>)]\<rparr>),
                             ev1 @ [LogInfo (''Moving temporary file to: '' @ resFile a pdb),
                                    CopyFile (resFile a pdb)]))))))"

text \<open>The loop \<^verbatim>\<open>for pdb in pbbIndices\<close> (line 46).\<close>

fun pdb_loop ::
  "('m, 'a, 'd) collab \<Rightarrow> args \<Rightarrow> 'm \<Rightarrow> string list \<Rightarrow> 'd files
     \<Rightarrow> (exn + outcome list) \<times> 'd files \<times> event list" where
  "pdb_loop c a mgr [] fs = (Inr [], fs, [])"
| "pdb_loop c a mgr (pdb # pdbs) fs =
     (case build_pdb c a mgr pdb fs of
        (Inl e, fs', ev) \<Rightarrow> (Inl e, fs', ev)
      | (Inr out, fs', ev) \<Rightarrow>
          (case pdb_loop c a mgr pdbs fs' of
             (Inl e, fs'', ev') \<Rightarrow> (Inl e, fs'', ev @ ev')
           | (Inr outs, fs'', ev') \<Rightarrow> (Inr (out # outs), fs'', ev @ ev')))"



text \<open>
  A property of a trace: every call of the trajectory discovery comes directly after
  the creation of the replica group it is for.  \<open>prev\<close> is the event before the
  trace, if any.
\<close>

fun created_before_discovery :: "event option \<Rightarrow> event list \<Rightarrow> bool" where
  "created_before_discovery prev [] = True"
| "created_before_discovery prev (e # es) =
     ((case e of
         Collab (GetTrajFiles pdb temp repl) \<Rightarrow>
           prev = Some (CreateGroup [pdb, temp_group_name temp, str_nat repl])
       | _ \<Rightarrow> True)
      \<and> created_before_discovery (Some e) es)"



section \<open>The parallel driver: \<^verbatim>\<open>launch\<close>\<close>

text \<open>
  Lines 107 to 112: the total number of batches handed to the scheduler, from the number
  \<open>numBatches\<close> computed at line 103.
\<close>

definition effective_numBatches :: "args \<Rightarrow> int \<Rightarrow> int" where
  "effective_numBatches a numBatches =
     (case toRunBatches a of
        Some t \<Rightarrow> (case startBatch a of Some s \<Rightarrow> t + s | None \<Rightarrow> t)
      | None \<Rightarrow> numBatches)"

text \<open>
  Lines 103 to 117: the scheduler that \<^verbatim>\<open>launch\<close> constructs for the accepted
  identifiers, with the number of batches computed at line 103 beside it (for the log).
\<close>

definition make_scheduler :: "args \<Rightarrow> string list \<Rightarrow> exn + int \<times> scheduler" where
  "make_scheduler a acceptedPDBs =
     (case ceil_div (int (length acceptedPDBs)) (batchSize a) of
        Inl e \<Rightarrow> Inl e
      | Inr numBatches \<Rightarrow>
          Inr (numBatches,
               ComputationScheduler (batchSize a) (startBatch a)
                 (effective_numBatches a numBatches) acceptedPDBs))"






section \<open>Concrete configurations\<close>

text \<open>
  A configuration and collaborators on which the definitions can be run: two
  temperatures, two replicas, batches of two identifiers.  The analyzer state is the
  list of the attributes it holds; a manager has no state.
\<close>

definition demo_args :: args where
  "demo_args =
     \<lparr>finaldatasetPath = ''out'', pdbDir = ''pdbs'', gpugridResultsPath = ''gpugrid'',
      concatTrajPath = ''concat'', molFilter = ''protein'',
      temperatures = [''320'', ''348''], numReplicas = 2,
      trajAttrs = [''numFrames''], trajDatasets = [''coords'', ''forces''],
      pdbAttrs = [''numResidues''], pdbDatasets = [''z''],
      batchSize = 2, startBatch = Some 1, toRunBatches = Some 1, maxWorkers = Some 1\<rparr>"

definition demo_ids :: "string list" where
  "demo_ids = [''a'', ''b'', ''c'', ''d'', ''e'']"

definition demo_collab :: "(unit, string list, string list) collab" where
  "demo_collab =
     \<lparr>TrajectoryFileManager = (\<lambda>p q. Inr ()),
      getTrajFiles = (\<lambda>m pdb temp repl.
         Inr [pdb @ ''_'' @ temp @ ''_'' @ str_nat repl @ ''-9.xtc'']),
      molAnalyzer = (\<lambda>path filt. Inr []),
      computeProperties = (\<lambda>an. Inr (List.insert ''props'' an)),
      trajAnalysis = (\<lambda>an files.
         Inr (if ''traj'' \<in> set an then List.insert ''forces'' an
              else List.insert ''traj'' an)),
      hasattr_forces = (\<lambda>an. ''forces'' \<in> set an),
      hasattr_traj = (\<lambda>an. ''traj'' \<in> set an),
      write_toH5_replica = (\<lambda>an attrs datasets. Inr (an, attrs @ datasets)),
      write_toH5_mol = (\<lambda>an attrs datasets. Inr (an, attrs @ datasets))\<rparr>"

text \<open>The same collaborators, with a discovery that finds no trajectory files.\<close>

definition demo_collab_nofiles :: "(unit, string list, string list) collab" where
  "demo_collab_nofiles =
     demo_collab\<lparr>getTrajFiles :=
       (\<lambda>m pdb temp repl. Inl (AssertionError ''no trajectory files''))\<rparr>"

text \<open>The same collaborators, with an analysis that raises on every trajectory.\<close>

definition demo_collab_crash :: "(unit, string list, string list) collab" where
  "demo_collab_crash =
     demo_collab\<lparr>trajAnalysis := (\<lambda>an files. Inl (OtherError ''corrupt trajectory''))\<rparr>"


text \<open>The same collaborators, with a discovery that raises another exception.\<close>

definition demo_collab_denied :: "(unit, string list, string list) collab" where
  "demo_collab_denied =
     demo_collab\<lparr>getTrajFiles :=
       (\<lambda>m pdb temp repl. Inl (OtherError ''permission denied''))\<rparr>"

text \<open>
  The same collaborators, with an analysis that computes neither forces nor a
  trajectory.
\<close>

definition demo_collab_noforces :: "(unit, string list, string list) collab" where
  "demo_collab_noforces = demo_collab\<lparr>trajAnalysis := (\<lambda>an files. Inr an)\<rparr>"

text \<open>Files: the structure file of the identifier \<open>y\<close>, and nothing else.\<close>

definition demo_files :: "string list files" where
  "demo_files = [''pdbs/y.pdb'' \<mapsto> Opaque]"

text \<open>Files: the output of the identifier \<open>x\<close> exists, and nothing else.\<close>

definition demo_files_done :: "string list files" where
  "demo_files_done =
     [''out/cath_dataset_x.h5'' \<mapsto>
        Dataset \<lparr>h5attrs = [(''layout'', ''cath-dataset-only-protein'')], h5groups = []\<rparr>]"


section \<open>Notions for the proofs\<close>




section \<open>Properties of the scheduler\<close>

lemma take_drop_clamped:
  "take (min (k + b) (length xs) - min k (length xs)) (drop (min k (length xs)) xs)
     = take b (drop k xs)"
proof (cases "k \<le> length xs")
  case True
  then have "min (k + b) (length xs) - min k (length xs) = min b (length (drop k xs))"
    by (simp add: min_def) arith
  moreover have "min k (length xs) = k" using True by simp
  ultimately show ?thesis by (simp add: min_def)
next
  case False
  then show ?thesis by simp
qed

lemma slice_batch:
  assumes "0 \<le> i" "0 < bs"
  shows "py_slice xs (i * bs) ((i + 1) * bs) = take (nat bs) (drop (nat i * nat bs) xs)"
proof -
  have a: "0 \<le> i * bs" using assms by simp
  have b: "0 \<le> (i + 1) * bs" using assms by simp
  have c: "nat ((i + 1) * bs) = nat i * nat bs + nat bs"
    using assms by (simp add: nat_mult_distrib nat_add_distrib algebra_simps)
  have d: "nat (i * bs) = nat i * nat bs"
    using assms by (simp add: nat_mult_distrib)
  have lo: "slice_bound (int (length xs)) (i * bs) = min (nat i * nat bs) (length xs)"
    using a d by (simp add: slice_bound_def min_def) linarith
  have hi: "slice_bound (int (length xs)) ((i + 1) * bs)
              = min (nat i * nat bs + nat bs) (length xs)"
    using b c by (simp add: slice_bound_def min_def) linarith
  show ?thesis
    unfolding py_slice_def Let_def lo hi by (rule take_drop_clamped)
qed

lemma concat_batches_nat:
  "concat (map (\<lambda>k. take b (drop (k * b) xs)) [0 ..< m]) = take (m * b) xs"
proof (induction m)
  case 0
  then show ?case by simp
next
  case (Suc m)
  have "take (m * b + b) xs = take (m * b) xs @ take b (drop (m * b) xs)"
    by (rule take_add)
  with Suc show ?case by (simp add: add.commute)
qed

lemma upto_as_upt: "[0 .. int n - 1] = map int [0 ..< n]"
proof (induction n)
  case 0
  then show ?case by simp
next
  case (Suc n)
  have "[0 .. int (Suc n) - 1] = [0 .. int n - 1] @ [int n]"
    using upto_rec2 [of 0 "int n"] by simp
  with Suc show ?case by simp
qed

lemma ceil_div_bounds:
  assumes "0 < bs" "ceil_div (int len) bs = Inr n"
  shows "0 \<le> n" "int len \<le> n * bs" "(n - 1) * bs < int len \<or> (n = 0 \<and> len = 0)"
proof -
  define q where "q = (- int len) div bs"
  define r where "r = (- int len) mod bs"
  have n: "n = - q" using assms by (simp add: ceil_div_def q_def split: if_splits)
  have m: "q * bs + r = - int len" unfolding q_def r_def by simp
  have r: "0 \<le> r" "r < bs" using assms(1) by (simp_all add: r_def)
  have nb: "n * bs = int len + r" using n m by (simp add: algebra_simps)
  have nb1: "(n - 1) * bs = int len + r - bs" using nb by (simp add: algebra_simps)
  have "q \<le> 0" unfolding q_def using assms(1) by (simp add: div_nonpos_pos_le0)
  then show "0 \<le> n" using n by simp
  show "int len \<le> n * bs" using nb r by simp
  show "(n - 1) * bs < int len \<or> (n = 0 \<and> len = 0)" using nb1 r by simp
qed

lemma concat_batches:
  assumes "0 < bs" "ceil_div (int (length ids)) bs = Inr n"
  shows "concat (map (\<lambda>i. py_slice ids (i * bs) ((i + 1) * bs)) [0 .. n - 1]) = ids"
proof -
  have n0: "0 \<le> n" and cover: "int (length ids) \<le> n * bs"
    using ceil_div_bounds [OF assms] by simp_all
  have "[0 .. n - 1] = map int [0 ..< nat n]"
    using upto_as_upt [of "nat n"] n0 by simp
  then have "concat (map (\<lambda>i. py_slice ids (i * bs) ((i + 1) * bs)) [0 .. n - 1])
      = concat (map (\<lambda>k. take (nat bs) (drop (k * nat bs) ids)) [0 ..< nat n])"
    using assms(1) by (simp add: comp_def slice_batch)
  also have "\<dots> = take (nat n * nat bs) ids" by (rule concat_batches_nat)
  also have "\<dots> = ids"
  proof -
    have "nat n * nat bs = nat (n * bs)" using n0 by (simp add: nat_mult_distrib)
    then have "length ids \<le> nat n * nat bs" using cover by simp
    then show ?thesis by simp
  qed
  finally show ?thesis .
qed

lemma batch_length:
  assumes "0 < bs" "ceil_div (int (length ids)) bs = Inr n" "0 \<le> i" "i < n"
  shows "length (py_slice ids (i * bs) ((i + 1) * bs))
           = (if i < n - 1 then nat bs else length ids - nat (n - 1) * nat bs)"
    and "0 < length (py_slice ids (i * bs) ((i + 1) * bs))"
    and "length (py_slice ids (i * bs) ((i + 1) * bs)) \<le> nat bs"
proof -
  define k where "k = nat i * nat bs"
  define b where "b = nat bs"
  have cover: "int (length ids) \<le> n * bs" and
       last: "(n - 1) * bs < int (length ids) \<or> (n = 0 \<and> length ids = 0)"
    using ceil_div_bounds [OF assms(1,2)] by simp_all
  have last': "(n - 1) * bs < int (length ids)" using last assms(3,4) by auto
  have len: "length (py_slice ids (i * bs) ((i + 1) * bs)) = min (length ids - k) b"
    using assms by (simp add: slice_batch k_def b_def)
  have ib: "int k = i * bs" unfolding k_def using assms by simp
  have b: "int b = bs" "0 < b" unfolding b_def using assms by simp_all
  have le: "i * bs \<le> (n - 1) * bs" using assms by (simp add: mult_right_mono)
  have kl: "k < length ids" using ib le last' by linarith
  show "0 < length (py_slice ids (i * bs) ((i + 1) * bs))"
    unfolding len using kl b by simp
  show "length (py_slice ids (i * bs) ((i + 1) * bs)) \<le> nat bs"
    unfolding len b_def by simp
  show "length (py_slice ids (i * bs) ((i + 1) * bs))
           = (if i < n - 1 then nat bs else length ids - nat (n - 1) * nat bs)"
  proof (cases "i < n - 1")
    case True
    then have "(i + 1) * bs \<le> (n - 1) * bs" using assms(1) by (simp add: mult_right_mono)
    then have "i * bs + bs < int (length ids)" using last' by (simp add: algebra_simps)
    then have "b \<le> length ids - k" using ib b by linarith
    then show ?thesis unfolding len using True by (simp add: b_def)
  next
    case False
    then have i: "i = n - 1" using assms by simp
    have "int (length ids) - (n - 1) * bs \<le> bs" using cover by (simp add: algebra_simps)
    moreover have "int k = (n - 1) * bs" using ib i by simp
    ultimately have "length ids - k \<le> b" using b by linarith
    then show ?thesis unfolding len using False i by (simp add: k_def)
  qed
qed

lemma batches_disjoint:
  assumes "distinct ids" "0 < bs" "0 \<le> i" "i < j"
  shows "set (py_slice ids (i * bs) ((i + 1) * bs)) \<inter> set (py_slice ids (j * bs) ((j + 1) * bs)) = {}"
proof -
  have bi: "py_slice ids (i * bs) ((i + 1) * bs) = take (nat bs) (drop (nat i * nat bs) ids)"
    and bj: "py_slice ids (j * bs) ((j + 1) * bs) = take (nat bs) (drop (nat j * nat bs) ids)"
    using assms by (simp_all add: slice_batch)
  have "take (nat bs) (drop (nat i * nat bs) ids) = drop (nat i * nat bs) (take (nat i * nat bs + nat bs) ids)"
    by (simp add: drop_take)
  then have si: "set (py_slice ids (i * bs) ((i + 1) * bs)) \<subseteq> set (take (nat i * nat bs + nat bs) ids)"
    unfolding bi by (metis set_drop_subset)
  have sj: "set (py_slice ids (j * bs) ((j + 1) * bs)) \<subseteq> set (drop (nat j * nat bs) ids)"
    unfolding bj by (rule set_take_subset)
  have "nat i + 1 \<le> nat j" using assms by simp
  then have "(nat i + 1) * nat bs \<le> nat j * nat bs" by (rule mult_le_mono1)
  then have "nat i * nat bs + nat bs \<le> nat j * nat bs" by (simp add: algebra_simps)
  then have "set (take (nat i * nat bs + nat bs) ids) \<inter> set (drop (nat j * nat bs) ids) = {}"
    using assms(1) by (rule set_take_disj_set_drop_if_distinct [rotated])
  then show ?thesis using si sj by blast
qed


lemma filter_upto_less:
  "filter (\<lambda>i. i < m) [a .. b] = [a .. min b (m - 1)]"
proof (rule sorted_distinct_set_unique)
  show "sorted (filter (\<lambda>i. i < m) [a .. b])" by (simp add: sorted_wrt_filter)
  show "distinct (filter (\<lambda>i. i < m) [a .. b])" by simp
  show "sorted [a .. min b (m - 1)]" by simp
  show "distinct [a .. min b (m - 1)]" by simp
  show "set (filter (\<lambda>i. i < m) [a .. b]) = set [a .. min b (m - 1)]" by auto
qed

lemma getBatches_range:
  "getBatches s = [(case sched_startBatch s of None \<Rightarrow> 0 | Some b \<Rightarrow> b)
                     .. min (sched_numBatches s) (availableBatches s) - 1]"
proof -
  have "min (sched_numBatches s - 1) (availableBatches s - 1)
          = min (sched_numBatches s) (availableBatches s) - 1"
    by simp
  then show ?thesis by (simp add: getBatches_def Let_def filter_upto_less)
qed

text \<open>
  Claim C6.  For a positive batch size and \<open>numBatches = ceil(len(identifiers) / batchSize)\<close>,
  \<^verbatim>\<open>process(i)\<close> returns the slice \<^verbatim>\<open>identifiers[i*batchSize : (i+1)*batchSize]\<close>
  for \<open>i\<close> in \<open>[0, numBatches)\<close> and fails with \<^verbatim>\<open>IndexError\<close> outside.  The
  batches, taken in order, concatenate to the identifier list (so they are ordered and
  cover it without gaps or overlaps), their lengths sum to its length, every batch but
  the last has \<open>batchSize\<close> identifiers, the last has between one and \<open>batchSize\<close>, and
  the batches of a list of distinct identifiers are pairwise disjoint.
\<close>

theorem process_batches_partition:
  assumes "0 < bs" and "ceil_div (int (length ids)) bs = Inr n"
  shows "(\<forall>i. process (ComputationScheduler bs sb n ids) i =
            (if 0 \<le> i \<and> i < n then Inr (py_slice ids (i * bs) ((i + 1) * bs))
             else Inl (IndexError ''batch index out of range'')))
       \<and> concat (map (batch_of (ComputationScheduler bs sb n ids)) [0 .. n - 1]) = ids
       \<and> sum_list (map (\<lambda>i. length (batch_of (ComputationScheduler bs sb n ids) i)) [0 .. n - 1])
           = length ids
       \<and> (\<forall>i. 0 \<le> i \<and> i < n - 1 \<longrightarrow>
             length (batch_of (ComputationScheduler bs sb n ids) i) = nat bs)
       \<and> (0 < n \<longrightarrow>
             0 < length (batch_of (ComputationScheduler bs sb n ids) (n - 1)) \<and>
             length (batch_of (ComputationScheduler bs sb n ids) (n - 1)) \<le> nat bs)
       \<and> (distinct ids \<longrightarrow>
            (\<forall>i j. 0 \<le> i \<and> i < j \<and> j < n \<longrightarrow>
               set (batch_of (ComputationScheduler bs sb n ids) i)
                 \<inter> set (batch_of (ComputationScheduler bs sb n ids) j) = {}))"
proof -
  let ?S = "ComputationScheduler bs sb n ids"
  let ?b = "\<lambda>i. py_slice ids (i * bs) ((i + 1) * bs)"
  have p: "process ?S i = (if 0 \<le> i \<and> i < n then Inr (?b i)
             else Inl (IndexError ''batch index out of range''))" for i
    by (auto simp: process_def ComputationScheduler_def)
  have bo: "batch_of ?S i = ?b i" if "0 \<le> i" "i < n" for i
    using that by (simp add: batch_of_def p)
  have m: "map (batch_of ?S) [0 .. n - 1] = map ?b [0 .. n - 1]"
    by (rule map_cong) (auto simp: bo)
  have c: "concat (map (batch_of ?S) [0 .. n - 1]) = ids"
    unfolding m by (rule concat_batches [OF assms])
  have "sum_list (map (\<lambda>i. length (batch_of ?S i)) [0 .. n - 1])
          = length (concat (map (batch_of ?S) [0 .. n - 1]))"
    by (simp add: length_concat comp_def)
  then have s: "sum_list (map (\<lambda>i. length (batch_of ?S i)) [0 .. n - 1]) = length ids"
    by (simp only: c)
  have l1: "length (batch_of ?S i) = nat bs" if "0 \<le> i \<and> i < n - 1" for i
    using that batch_length(1) [OF assms, of i] by (simp add: bo)
  have l2: "0 < length (batch_of ?S (n - 1)) \<and> length (batch_of ?S (n - 1)) \<le> nat bs"
    if "0 < n"
    using that batch_length(2,3) [OF assms, of "n - 1"] by (simp add: bo)
  have d: "set (batch_of ?S i) \<inter> set (batch_of ?S j) = {}"
    if "distinct ids" "0 \<le> i \<and> i < j \<and> j < n" for i j
    using that batches_disjoint [of ids bs i j] assms(1) by (simp add: bo)
  show ?thesis using p c s l1 l2 d by blast
qed

theorem process_batches_partition_witness:
  "(0::int) < 2 \<and> ceil_div (int (length demo_ids)) 2 = Inr 3
   \<and> concat (map (batch_of (ComputationScheduler 2 None 3 demo_ids)) [0 .. 3 - 1]) = demo_ids
   \<and> process (ComputationScheduler 2 None 3 demo_ids) 2 = Inr [''e'']
   \<and> process (ComputationScheduler 2 None 3 demo_ids) 3
        = Inl (IndexError ''batch index out of range'')"
proof -
  have h1: "(0::int) < 2" by simp
  have h2: "ceil_div (int (length demo_ids)) 2 = Inr 3"
    by (simp add: ceil_div_def demo_ids_def)
  have h3: "py_slice demo_ids (2 * 2) ((2 + 1) * 2) = [''e'']"
    by (simp add: py_slice_def slice_bound_def demo_ids_def)
  have h4: "concat (map (batch_of (ComputationScheduler 2 None 3 demo_ids)) [0 .. 3 - 1])
              = demo_ids"
    using process_batches_partition [OF h1 h2, of None] by blast
  have h5: "process (ComputationScheduler 2 None 3 demo_ids) i =
            (if 0 \<le> i \<and> i < 3 then Inr (py_slice demo_ids (i * 2) ((i + 1) * 2))
             else Inl (IndexError ''batch index out of range''))" for i
    using process_batches_partition [OF h1 h2, of None] by blast
  show ?thesis using h1 h2 h3 h4 h5 [of 2] h5 [of 3] by simp
qed


section \<open>Properties of the driver\<close>

text \<open>
  Claim C4.  When both \<^verbatim>\<open>startBatch\<close> and \<^verbatim>\<open>toRunBatches\<close> are given,
  \<^verbatim>\<open>launch\<close> constructs the scheduler with the total
  \<open>startBatch + toRunBatches\<close>, whatever the number of batches of the identifier
  list is; the run list lies in \<open>[startBatch, startBatch + toRunBatches)\<close>, so the
  batches before \<open>startBatch\<close> count toward the total and are not run.
\<close>

theorem launch_numBatches_both_bounds:
  assumes "startBatch a = Some s" and "toRunBatches a = Some t"
    and "make_scheduler a ids = Inr (n, sch)"
  shows "sched_numBatches sch = s + t
       \<and> sch = ComputationScheduler (batchSize a) (Some s) (s + t) ids
       \<and> (\<forall>i \<in> set (getBatches sch). s \<le> i \<and> i < s + t)
       \<and> (\<forall>i. i < s \<longrightarrow> i \<notin> set (getBatches sch))"
proof -
  have sch: "sch = ComputationScheduler (batchSize a) (Some s) (s + t) ids"
    using assms
    by (auto simp: make_scheduler_def effective_numBatches_def add.commute split: sum.splits)
  have g: "getBatches sch = [s .. min (s + t) (availableBatches sch) - 1]"
    using getBatches_range [of sch] by (simp add: sch ComputationScheduler_def)
  show ?thesis using sch g by (auto simp: ComputationScheduler_def)
qed

theorem launch_numBatches_both_bounds_witness:
  "startBatch demo_args = Some 1 \<and> toRunBatches demo_args = Some 1
   \<and> make_scheduler demo_args demo_ids = Inr (3, ComputationScheduler 2 (Some 1) 2 demo_ids)
   \<and> sched_numBatches (ComputationScheduler 2 (Some 1) 2 demo_ids) = 1 + 1"
proof -
  have h1: "startBatch demo_args = Some 1" by (simp add: demo_args_def)
  have h2: "toRunBatches demo_args = Some 1" by (simp add: demo_args_def)
  have h3: "make_scheduler demo_args demo_ids
              = Inr (3, ComputationScheduler 2 (Some 1) 2 demo_ids)"
    by (simp add: make_scheduler_def ceil_div_def demo_args_def demo_ids_def
          effective_numBatches_def)
  have "sched_numBatches (ComputationScheduler 2 (Some 1) 2 demo_ids) = 1 + 1"
    using launch_numBatches_both_bounds [OF h1 h2 h3] by blast
  with h1 h2 h3 show ?thesis by blast
qed


section \<open>Properties of the molecule builder\<close>






lemma create_group_Inr: "create_group name members = Inr u \<longleftrightarrow> name \<notin> fst ` set members"
  by (simp add: create_group_def)

lemma create_group_Inl:
  "create_group name members = Inl e \<longleftrightarrow>
     name \<in> fst ` set members \<and> e = ValueError ''Unable to create group (name already exists)''"
  by (auto simp: create_group_def)

lemma replica_step_members:
  assumes "replica_step c a mgr pdb temp an members repl = (Inr (an', members'), ev)"
  shows "\<exists>x. members' = members @ [(str_nat repl, x)]" and "str_nat repl \<notin> fst ` set members"
  using assms
  by (auto simp: replica_step_def Let_def create_group_def
        split: sum.splits exn.splits if_splits prod.splits)

lemma replica_loop_members:
  assumes "replica_loop c a mgr pdb temp an members repls = (Inr (an', members'), ev)"
  shows "map fst members' = map fst members @ map str_nat repls"
  using assms
proof (induction repls arbitrary: an members ev)
  case Nil
  then show ?case by simp
next
  case (Cons repl repls)
  from Cons.prems obtain an1 members1 ev1 ev2 where
    s: "replica_step c a mgr pdb temp an members repl = (Inr (an1, members1), ev1)" and
    l: "replica_loop c a mgr pdb temp an1 members1 repls = (Inr (an', members'), ev2)"
    by (auto split: sum.splits prod.splits)
  from replica_step_members(1) [OF s] obtain x where "members1 = members @ [(str_nat repl, x)]" ..
  with Cons.IH [OF l] show ?case by simp
qed


lemma temp_step_groups:
  assumes "temp_step c a mgr pdb an tgroups temp = (Inr (an', tgroups'), ev)"
  shows "\<exists>members. tgroups' = tgroups @ [(temp_group_name temp, members)]
           \<and> map fst members = map str_nat [0 ..< nat (numReplicas a)]"
proof -
  from assms obtain members ev1 where
    l: "replica_loop c a mgr pdb temp an [] [0 ..< nat (numReplicas a)] = (Inr (an', members), ev1)"
    and t: "tgroups' = tgroups @ [(temp_group_name temp, members)]"
    by (auto simp: temp_step_def split: sum.splits prod.splits)
  from replica_loop_members [OF l] t show ?thesis by simp
qed

lemma temp_loop_groups:
  assumes "temp_loop c a mgr pdb an tgroups temps = (Inr (an', tgroups'), ev)"
  shows "\<exists>new. tgroups' = tgroups @ new
           \<and> map fst new = map temp_group_name temps
           \<and> (\<forall>members \<in> snd ` set new.
                 map fst members = map str_nat [0 ..< nat (numReplicas a)])"
  using assms
proof (induction temps arbitrary: an tgroups ev)
  case Nil
  then show ?case by simp
next
  case (Cons temp temps)
  from Cons.prems obtain an1 tgroups1 ev1 ev2 where
    s: "temp_step c a mgr pdb an tgroups temp = (Inr (an1, tgroups1), ev1)" and
    l: "temp_loop c a mgr pdb an1 tgroups1 temps = (Inr (an', tgroups'), ev2)"
    by (auto split: sum.splits prod.splits)
  from temp_step_groups [OF s] obtain members where
    m: "tgroups1 = tgroups @ [(temp_group_name temp, members)]"
       "map fst members = map str_nat [0 ..< nat (numReplicas a)]"
    by blast
  from Cons.IH [OF l] obtain new where
    n: "tgroups' = tgroups1 @ new" "map fst new = map temp_group_name temps"
       "\<forall>members \<in> snd ` set new. map fst members = map str_nat [0 ..< nat (numReplicas a)]"
    by blast
  show ?case
  proof (intro exI conjI)
    show "tgroups' = tgroups @ ((temp_group_name temp, members) # new)" using m n by simp
    show "map fst ((temp_group_name temp, members) # new) = map temp_group_name (temp # temps)"
      using n by simp
    show "\<forall>members \<in> snd ` set ((temp_group_name temp, members) # new).
            map fst members = map str_nat [0 ..< nat (numReplicas a)]"
      using m n by auto
  qed
qed

lemma build_pdb_Written:
  assumes "build_pdb c a mgr pdb fs = (Inr Written, fs', ev)"
  shows "\<exists>tgroups d. fs' = fs(resFile a pdb \<mapsto> Dataset
            \<lparr>h5attrs = [(''layout'', ''cath-dataset-only-protein'')],
             h5groups = [(pdb, \<lparr>temp_groups = tgroups, mol_data = Some d\<rparr>)]\<rparr>)
          \<and> map fst tgroups = map temp_group_name (temperatures a)
          \<and> (\<forall>members \<in> snd ` set tgroups.
                 map fst members = map str_nat [0 ..< nat (numReplicas a)])"
    and "\<not> exists fs (resFile a pdb)" and "exists fs (pdbFilePath a pdb)"
proof -
  from assms show ne: "\<not> exists fs (resFile a pdb)" and "exists fs (pdbFilePath a pdb)"
    by (auto simp: build_pdb_def split: if_splits)
  with assms obtain an an' tgroups ev1 an'' d where
    l: "temp_loop c a mgr pdb an [] (temperatures a) = (Inr (an', tgroups), ev1)" and
    f: "fs' = fs(resFile a pdb \<mapsto> Dataset
            \<lparr>h5attrs = [(''layout'', ''cath-dataset-only-protein'')],
             h5groups = [(pdb, \<lparr>temp_groups = tgroups, mol_data = Some d\<rparr>)]\<rparr>)"
    by (auto simp: build_pdb_def Let_def create_group_def split: sum.splits prod.splits)
  from temp_loop_groups [OF l] f show "\<exists>tgroups d. fs' = fs(resFile a pdb \<mapsto> Dataset
            \<lparr>h5attrs = [(''layout'', ''cath-dataset-only-protein'')],
             h5groups = [(pdb, \<lparr>temp_groups = tgroups, mol_data = Some d\<rparr>)]\<rparr>)
          \<and> map fst tgroups = map temp_group_name (temperatures a)
          \<and> (\<forall>members \<in> snd ` set tgroups.
                 map fst members = map str_nat [0 ..< nat (numReplicas a)])"
    by auto
qed

lemma cbd_append:
  "created_before_discovery prev xs \<Longrightarrow> (\<And>p. created_before_discovery p ys)
     \<Longrightarrow> created_before_discovery prev (xs @ ys)"
  by (induction xs arbitrary: prev) auto

lemma cbd_replica_step:
  "replica_step c a mgr pdb temp an members repl = (r, ev) \<Longrightarrow> created_before_discovery p ev"
  by (auto simp: replica_step_def Let_def
        split: sum.splits exn.splits if_splits prod.splits)

lemma cbd_replica_loop:
  "replica_loop c a mgr pdb temp an members repls = (r, ev) \<Longrightarrow> created_before_discovery p ev"
proof (induction repls arbitrary: an members r ev p)
  case Nil
  then show ?case by simp
next
  case (Cons repl repls)
  obtain r1 ev1 where s: "replica_step c a mgr pdb temp an members repl = (r1, ev1)"
    by (cases "replica_step c a mgr pdb temp an members repl")
  show ?case
  proof (cases r1)
    case (Inl e)
    with s Cons.prems have "ev = ev1" by simp
    with cbd_replica_step [OF s] show ?thesis by simp
  next
    case (Inr x)
    obtain an1 members1 where x: "x = (an1, members1)" by (cases x)
    obtain r2 ev2 where l: "replica_loop c a mgr pdb temp an1 members1 repls = (r2, ev2)"
      by (cases "replica_loop c a mgr pdb temp an1 members1 repls")
    from s Inr x l Cons.prems have "ev = ev1 @ ev2" by simp
    with cbd_replica_step [OF s] Cons.IH [OF l] show ?thesis by (simp add: cbd_append)
  qed
qed


lemma cbd_temp_step:
  "temp_step c a mgr pdb an tgroups temp = (r, ev) \<Longrightarrow> created_before_discovery p ev"
proof -
  assume t: "temp_step c a mgr pdb an tgroups temp = (r, ev)"
  obtain r1 ev1 where
    l: "replica_loop c a mgr pdb temp an [] [0 ..< nat (numReplicas a)] = (r1, ev1)"
    by (cases "replica_loop c a mgr pdb temp an [] [0 ..< nat (numReplicas a)]")
  from t l have "ev = [] \<or> ev = CreateGroup [pdb, temp_group_name temp] # ev1"
    by (auto simp: temp_step_def split: sum.splits prod.splits)
  with cbd_replica_loop [OF l] show ?thesis by auto
qed

lemma cbd_temp_loop:
  "temp_loop c a mgr pdb an tgroups temps = (r, ev) \<Longrightarrow> created_before_discovery p ev"
proof (induction temps arbitrary: an tgroups r ev p)
  case Nil
  then show ?case by simp
next
  case (Cons temp temps)
  obtain r1 ev1 where s: "temp_step c a mgr pdb an tgroups temp = (r1, ev1)"
    by (cases "temp_step c a mgr pdb an tgroups temp")
  show ?case
  proof (cases r1)
    case (Inl e)
    with s Cons.prems have "ev = ev1" by simp
    with cbd_temp_step [OF s] show ?thesis by simp
  next
    case (Inr x)
    obtain an1 tgroups1 where x: "x = (an1, tgroups1)" by (cases x)
    obtain r2 ev2 where l: "temp_loop c a mgr pdb an1 tgroups1 temps = (r2, ev2)"
      by (cases "temp_loop c a mgr pdb an1 tgroups1 temps")
    from s Inr x l Cons.prems have "ev = ev1 @ ev2" by simp
    with cbd_temp_step [OF s] Cons.IH [OF l] show ?thesis by (simp add: cbd_append)
  qed
qed

lemma cbd_build_pdb:
  assumes "build_pdb c a mgr pdb fs = (r, fs', ev)"
  shows "created_before_discovery p ev"
proof -
  let ?ev0 = "[CreateGroup [pdb], Collab (NewMolAnalyzer (pdbFilePath a pdb) (molFilter a))]"
  have e0: "created_before_discovery p ?ev0" by simp
  consider (short) "ev = [] \<or> (\<exists>m. ev = [LogInfo m]) \<or> (\<exists>m. ev = [LogWarning m]) \<or> ev = ?ev0"
    | (loop) an r1 ev1 tl where
        "temp_loop c a mgr pdb an [] (temperatures a) = (r1, ev1)" "ev = ?ev0 @ ev1 @ tl"
        "\<forall>q. created_before_discovery q tl"
  proof (cases "exists fs (resFile a pdb) \<or> \<not> exists fs (pdbFilePath a pdb)")
    case True
    with assms have "(\<exists>m. ev = [LogInfo m]) \<or> (\<exists>m. ev = [LogWarning m])"
      by (auto simp: build_pdb_def split: if_splits)
    then show ?thesis using short by blast
  next
    case False
    show ?thesis
    proof (cases "molAnalyzer c (pdbFilePath a pdb) (molFilter a)")
      case (Inl e)
      with False assms have "ev = ?ev0"
        by (auto simp: build_pdb_def Let_def create_group_def)
      then show ?thesis using short by blast
    next
      case (Inr an)
      obtain r1 ev1 where l: "temp_loop c a mgr pdb an [] (temperatures a) = (r1, ev1)"
        by (cases "temp_loop c a mgr pdb an [] (temperatures a)")
      from False Inr l assms have "\<exists>tl. ev = ?ev0 @ ev1 @ tl \<and> (\<forall>q. created_before_discovery q tl)"
        by (auto simp: build_pdb_def Let_def create_group_def split: sum.splits prod.splits)
      then show ?thesis using loop [OF l] by blast
    qed
  qed
  then show ?thesis
  proof cases
    case short
    then show ?thesis by auto
  next
    case loop
    have "created_before_discovery q (ev1 @ tl)" for q
      using cbd_temp_loop [OF loop(1)] loop(3) by (simp add: cbd_append)
    with e0 show ?thesis unfolding loop(2) by (simp only: cbd_append)
  qed
qed

lemma demo_build_nofiles:
  "fst (build_pdb demo_collab_nofiles demo_args () ''y'' demo_files) = Inr Written"
  by code_simp

text \<open>
  Claim C10.  In the build of a molecule, every call of the trajectory discovery for a
  (temperature, replica) combination comes directly after the creation of the group
  \<^verbatim>\<open>sims<temperature>K/<replica>\<close> of that combination.  When the build publishes
  its archive, the published file holds the group of the molecule, in it one group for
  every configured temperature, and in each of these one group for every replica index
  below \<^verbatim>\<open>numReplicas\<close>, whether the replica was skipped or not.
\<close>

theorem replica_groups_created_first:
  assumes "build_pdb c a mgr pdb fs = (r, fs', ev)"
  shows "created_before_discovery None ev
       \<and> (r = Inr Written \<longrightarrow>
            (\<exists>h g. fs' (resFile a pdb) = Some (Dataset h) \<and> h5groups h = [(pdb, g)]
               \<and> map fst (temp_groups g) = map temp_group_name (temperatures a)
               \<and> (\<forall>members \<in> snd ` set (temp_groups g).
                     map fst members = map str_nat [0 ..< nat (numReplicas a)])
               \<and> (\<forall>temp \<in> set (temperatures a). \<forall>repl < nat (numReplicas a).
                     \<exists>members x. (temp_group_name temp, members) \<in> set (temp_groups g)
                        \<and> (str_nat repl, x) \<in> set members)))"
proof -
  have "created_before_discovery None ev" using assms by (rule cbd_build_pdb)
  moreover have "\<exists>h g. fs' (resFile a pdb) = Some (Dataset h) \<and> h5groups h = [(pdb, g)]
               \<and> map fst (temp_groups g) = map temp_group_name (temperatures a)
               \<and> (\<forall>members \<in> snd ` set (temp_groups g).
                     map fst members = map str_nat [0 ..< nat (numReplicas a)])
               \<and> (\<forall>temp \<in> set (temperatures a). \<forall>repl < nat (numReplicas a).
                     \<exists>members x. (temp_group_name temp, members) \<in> set (temp_groups g)
                        \<and> (str_nat repl, x) \<in> set members)"
    if w: "r = Inr Written"
  proof -
    from build_pdb_Written(1) [of c a mgr pdb fs fs' ev] assms w
    obtain tgroups d where
      f: "fs' = fs(resFile a pdb \<mapsto> Dataset
            \<lparr>h5attrs = [(''layout'', ''cath-dataset-only-protein'')],
             h5groups = [(pdb, \<lparr>temp_groups = tgroups, mol_data = Some d\<rparr>)]\<rparr>)" and
      t: "map fst tgroups = map temp_group_name (temperatures a)" and
      m: "\<forall>members \<in> snd ` set tgroups.
            map fst members = map str_nat [0 ..< nat (numReplicas a)]"
      by blast
    have "\<exists>members x. (temp_group_name temp, members) \<in> set tgroups
            \<and> (str_nat repl, x) \<in> set members"
      if "temp \<in> set (temperatures a)" "repl < nat (numReplicas a)" for temp repl
    proof -
      from that(1) have "temp_group_name temp \<in> set (map fst tgroups)" unfolding t by simp
      then obtain members where g: "(temp_group_name temp, members) \<in> set tgroups" by auto
      then have "members \<in> snd ` set tgroups" by force
      with m have "map fst members = map str_nat [0 ..< nat (numReplicas a)]" by blast
      with that(2) have "str_nat repl \<in> set (map fst members)" by simp
      then obtain x where "(str_nat repl, x) \<in> set members" by auto
      with g show ?thesis by blast
    qed
    with f t m show ?thesis by simp
  qed
  ultimately show ?thesis by blast
qed

theorem replica_groups_created_first_witness:
  "fst (build_pdb demo_collab_nofiles demo_args () ''y'' demo_files) = Inr Written
   \<and> created_before_discovery None
        (snd (snd (build_pdb demo_collab_nofiles demo_args () ''y'' demo_files)))
   \<and> (\<exists>h g members x.
         fst (snd (build_pdb demo_collab_nofiles demo_args () ''y'' demo_files))
           (resFile demo_args ''y'') = Some (Dataset h)
         \<and> h5groups h = [(''y'', g)]
         \<and> (temp_group_name ''348'', members) \<in> set (temp_groups g)
         \<and> (str_nat 1, x) \<in> set members)"
proof -
  let ?b = "build_pdb demo_collab_nofiles demo_args () ''y'' demo_files"
  have e: "?b = (Inr Written, fst (snd ?b), snd (snd ?b))"
    using demo_build_nofiles by (simp add: prod_eq_iff)
  note inst = replica_groups_created_first [OF e]
  have t: "''348'' \<in> set (temperatures demo_args)" "1 < nat (numReplicas demo_args)"
    by (simp_all add: demo_args_def)
  have 1: "created_before_discovery None (snd (snd ?b))"
    using inst by blast
  from inst obtain h g where
    g: "fst (snd ?b) (resFile demo_args ''y'') = Some (Dataset h)" "h5groups h = [(''y'', g)]"
    and m: "\<forall>temp \<in> set (temperatures demo_args). \<forall>repl < nat (numReplicas demo_args).
              \<exists>members x. (temp_group_name temp, members) \<in> set (temp_groups g)
                 \<and> (str_nat repl, x) \<in> set members"
    by blast
  from m t obtain members x where
    "(temp_group_name ''348'', members) \<in> set (temp_groups g)" "(str_nat 1, x) \<in> set members"
    by blast
  with g have 2: "\<exists>h g members x.
         fst (snd ?b) (resFile demo_args ''y'') = Some (Dataset h)
         \<and> h5groups h = [(''y'', g)]
         \<and> (temp_group_name ''348'', members) \<in> set (temp_groups g)
         \<and> (str_nat 1, x) \<in> set members"
    by blast
  show ?thesis using demo_build_nofiles 1 2 by blast
qed








lemma build_pdb_missing:
  "\<not> exists fs (resFile a pdb) \<Longrightarrow> \<not> exists fs (pdbFilePath a pdb) \<Longrightarrow>
     build_pdb c a mgr pdb fs =
       (Inr SkippedMissingInput, fs, [LogWarning (pdb @ '' does not exist'')])"
  by (simp add: build_pdb_def)


text \<open>
  An identifier whose structure file is missing and whose output exists is skipped for
  the existing output: the record is logged at the info level, and the outcome is
  \<open>SkippedExists\<close>.
\<close>

theorem missing_input_counterexample:
  "\<not> exists demo_files_done (pdbFilePath demo_args ''x'')
   \<and> build_pdb demo_collab demo_args () ''x'' demo_files_done
       = (Inr SkippedExists, demo_files_done,
          [LogInfo ''h5py dataset for x already exists, skipping''])"
  by (simp add: build_pdb_def exists_def pdbFilePath_def resFile_def opj_def
        demo_files_done_def demo_args_def)

text \<open>
  Claim C9, amended.  For an identifier whose output file does not exist and whose
  structure file does not exist, the build logs the warning, ends as
  \<open>SkippedMissingInput\<close> and leaves every file as it was; the loop over the batch goes
  on with the remaining identifiers from the same files.
\<close>

theorem missing_input_skipped:
  assumes "\<not> exists fs (resFile a pdb)" and "\<not> exists fs (pdbFilePath a pdb)"
  shows "build_pdb c a mgr pdb fs =
           (Inr SkippedMissingInput, fs, [LogWarning (pdb @ '' does not exist'')])
       \<and> pdb_loop c a mgr (pdb # pdbs) fs =
           (case pdb_loop c a mgr pdbs fs of
              (Inl e, fs', ev) \<Rightarrow> (Inl e, fs', LogWarning (pdb @ '' does not exist'') # ev)
            | (Inr outs, fs', ev) \<Rightarrow>
                (Inr (SkippedMissingInput # outs), fs',
                 LogWarning (pdb @ '' does not exist'') # ev))"
  using assms by (simp add: build_pdb_missing split: sum.splits prod.splits)

theorem missing_input_skipped_witness:
  "\<not> exists demo_files (resFile demo_args ''x'')
   \<and> \<not> exists demo_files (pdbFilePath demo_args ''x'')
   \<and> build_pdb demo_collab demo_args () ''x'' demo_files
       = (Inr SkippedMissingInput, demo_files, [LogWarning ''x does not exist''])"
proof -
  have h1: "\<not> exists demo_files (resFile demo_args ''x'')"
    by (simp add: exists_def resFile_def opj_def demo_files_def demo_args_def)
  have h2: "\<not> exists demo_files (pdbFilePath demo_args ''x'')"
    by (simp add: exists_def pdbFilePath_def demo_files_def demo_args_def)
  have "build_pdb demo_collab demo_args () ''x'' demo_files
       = (Inr SkippedMissingInput, demo_files, [LogWarning (''x'' @ '' does not exist'')])"
    using missing_input_skipped [OF h1 h2, of demo_collab "()" "[]"] by blast
  with h1 h2 show ?thesis by simp
qed




























text \<open>
  An exception that the analysis raises for one replica, and an exception of the
  discovery that is not an \<^verbatim>\<open>AssertionError\<close>, leave the iteration of the replica
  and the whole batch: the identifiers after it are not built.
\<close>

theorem replica_error_counterexample:
  "trajAnalysis demo_collab_crash [''props''] [''y_320_0-9.xtc'']
     = Inl (OtherError ''corrupt trajectory'')
   \<and> fst (replica_step demo_collab_crash demo_args () ''y'' ''320'' [] [] 0)
       = Inl (OtherError ''corrupt trajectory'')
   \<and> fst (pdb_loop demo_collab_crash demo_args () [''y'', ''x''] demo_files)
       = Inl (OtherError ''corrupt trajectory'')
   \<and> getTrajFiles demo_collab_denied () ''y'' ''320'' 0 = Inl (OtherError ''permission denied'')
   \<and> fst (replica_step demo_collab_denied demo_args () ''y'' ''320'' [] [] 0)
       = Inl (OtherError ''permission denied'')
   \<and> fst (pdb_loop demo_collab_denied demo_args () [''y'', ''x''] demo_files)
       = Inl (OtherError ''permission denied'')"
  by code_simp

text \<open>
  Claim C2, amended.  In the iteration of a replica whose group is new, an
  \<^verbatim>\<open>AssertionError\<close> raised by the trajectory discovery is logged as an error and
  ends the iteration only: the group of the replica stays empty, the analyzer is not
  called, and the loop goes on with the remaining replicas.  The same holds when the
  discovery and the three calls of the analysis return and the analyzer has no forces
  or no trajectory afterwards.  Every other exception of the iteration is not caught:
  an exception of the discovery that is not an \<^verbatim>\<open>AssertionError\<close>, and an exception
  of \<^verbatim>\<open>computeProperties\<close>, of either \<^verbatim>\<open>trajAnalysis\<close> or of the replica's
  \<^verbatim>\<open>write_toH5\<close>, leaves the iteration and the loop over the replicas, whose
  remaining replicas are not processed.
\<close>

theorem discovery_assertion_skips_replica:
  assumes "str_nat repl \<notin> fst ` set members"
  shows "(getTrajFiles c mgr pdb temp repl = Inl (AssertionError m) \<longrightarrow>
            replica_step c a mgr pdb temp an members repl =
              (Inr (an, members @ [(str_nat repl, None)]),
               [CreateGroup [pdb, temp_group_name temp, str_nat repl],
                Collab (GetTrajFiles pdb temp repl), LogError m])
          \<and> replica_loop c a mgr pdb temp an members (repl # repls) =
              (case replica_loop c a mgr pdb temp an (members @ [(str_nat repl, None)]) repls of
                 (r, ev) \<Rightarrow>
                   (r, [CreateGroup [pdb, temp_group_name temp, str_nat repl],
                        Collab (GetTrajFiles pdb temp repl), LogError m] @ ev)))
       \<and> (getTrajFiles c mgr pdb temp repl = Inr trajFiles
            \<and> computeProperties c an = Inr an1
            \<and> trajAnalysis c an1 trajFiles = Inr an2
            \<and> trajAnalysis c an2 (map (replace ''9.xtc'' ''8.vel.dcd'') trajFiles) = Inr an3
            \<and> (\<not> hasattr_forces c an3 \<or> \<not> hasattr_traj c an3) \<longrightarrow>
            (\<exists>ev. replica_step c a mgr pdb temp an members repl =
                     (Inr (an3, members @ [(str_nat repl, None)]),
                      ev @ [LogError (''forces or traj not found for '' @ pdb
                                        @ '' '' @ temp @ '' '' @ str_nat repl)])
                \<and> replica_loop c a mgr pdb temp an members (repl # repls) =
                    (case replica_loop c a mgr pdb temp an3
                            (members @ [(str_nat repl, None)]) repls of
                       (r, ev') \<Rightarrow>
                         (r, (ev @ [LogError (''forces or traj not found for '' @ pdb
                                        @ '' '' @ temp @ '' '' @ str_nat repl)]) @ ev'))))
       \<and> (getTrajFiles c mgr pdb temp repl = Inl e \<and> (\<forall>m'. e \<noteq> AssertionError m') \<longrightarrow>
            (\<exists>ev. replica_step c a mgr pdb temp an members repl = (Inl e, ev)
               \<and> replica_loop c a mgr pdb temp an members (repl # repls) = (Inl e, ev)))
       \<and> (getTrajFiles c mgr pdb temp repl = Inr trajFiles
            \<and> computeProperties c an = Inl e \<longrightarrow>
            (\<exists>ev. replica_step c a mgr pdb temp an members repl = (Inl e, ev)
               \<and> replica_loop c a mgr pdb temp an members (repl # repls) = (Inl e, ev)))
       \<and> (getTrajFiles c mgr pdb temp repl = Inr trajFiles
            \<and> computeProperties c an = Inr an1
            \<and> trajAnalysis c an1 trajFiles = Inl e \<longrightarrow>
            (\<exists>ev. replica_step c a mgr pdb temp an members repl = (Inl e, ev)
               \<and> replica_loop c a mgr pdb temp an members (repl # repls) = (Inl e, ev)))
       \<and> (getTrajFiles c mgr pdb temp repl = Inr trajFiles
            \<and> computeProperties c an = Inr an1
            \<and> trajAnalysis c an1 trajFiles = Inr an2
            \<and> trajAnalysis c an2 (map (replace ''9.xtc'' ''8.vel.dcd'') trajFiles) = Inl e \<longrightarrow>
            (\<exists>ev. replica_step c a mgr pdb temp an members repl = (Inl e, ev)
               \<and> replica_loop c a mgr pdb temp an members (repl # repls) = (Inl e, ev)))
       \<and> (getTrajFiles c mgr pdb temp repl = Inr trajFiles
            \<and> computeProperties c an = Inr an1
            \<and> trajAnalysis c an1 trajFiles = Inr an2
            \<and> trajAnalysis c an2 (map (replace ''9.xtc'' ''8.vel.dcd'') trajFiles) = Inr an3
            \<and> hasattr_forces c an3 \<and> hasattr_traj c an3
            \<and> write_toH5_replica c an3 (trajAttrs a) (trajDatasets a) = Inl e \<longrightarrow>
            (\<exists>ev. replica_step c a mgr pdb temp an members repl = (Inl e, ev)
               \<and> replica_loop c a mgr pdb temp an members (repl # repls) = (Inl e, ev)))"
proof -
  have g: "create_group (str_nat repl) members = Inr ()"
    using assms by (simp add: create_group_def)
  have 1: "replica_step c a mgr pdb temp an members repl =
              (Inr (an, members @ [(str_nat repl, None)]),
               [CreateGroup [pdb, temp_group_name temp, str_nat repl],
                Collab (GetTrajFiles pdb temp repl), LogError m])"
    if "getTrajFiles c mgr pdb temp repl = Inl (AssertionError m)"
    using that g by (simp add: replica_step_def)
  have 2: "\<exists>ev. replica_step c a mgr pdb temp an members repl =
                     (Inr (an3, members @ [(str_nat repl, None)]),
                      ev @ [LogError (''forces or traj not found for '' @ pdb
                                        @ '' '' @ temp @ '' '' @ str_nat repl)])"
    if "getTrajFiles c mgr pdb temp repl = Inr trajFiles"
       "computeProperties c an = Inr an1"
       "trajAnalysis c an1 trajFiles = Inr an2"
       "trajAnalysis c an2 (map (replace ''9.xtc'' ''8.vel.dcd'') trajFiles) = Inr an3"
       "\<not> hasattr_forces c an3 \<or> \<not> hasattr_traj c an3"
    using that g by (auto simp: replica_step_def Let_def)
  have skip: "(getTrajFiles c mgr pdb temp repl = Inl (AssertionError m) \<longrightarrow>
            replica_step c a mgr pdb temp an members repl =
              (Inr (an, members @ [(str_nat repl, None)]),
               [CreateGroup [pdb, temp_group_name temp, str_nat repl],
                Collab (GetTrajFiles pdb temp repl), LogError m])
          \<and> replica_loop c a mgr pdb temp an members (repl # repls) =
              (case replica_loop c a mgr pdb temp an (members @ [(str_nat repl, None)]) repls of
                 (r, ev) \<Rightarrow>
                   (r, [CreateGroup [pdb, temp_group_name temp, str_nat repl],
                        Collab (GetTrajFiles pdb temp repl), LogError m] @ ev)))
       \<and> (getTrajFiles c mgr pdb temp repl = Inr trajFiles
            \<and> computeProperties c an = Inr an1
            \<and> trajAnalysis c an1 trajFiles = Inr an2
            \<and> trajAnalysis c an2 (map (replace ''9.xtc'' ''8.vel.dcd'') trajFiles) = Inr an3
            \<and> (\<not> hasattr_forces c an3 \<or> \<not> hasattr_traj c an3) \<longrightarrow>
            (\<exists>ev. replica_step c a mgr pdb temp an members repl =
                     (Inr (an3, members @ [(str_nat repl, None)]),
                      ev @ [LogError (''forces or traj not found for '' @ pdb
                                        @ '' '' @ temp @ '' '' @ str_nat repl)])
                \<and> replica_loop c a mgr pdb temp an members (repl # repls) =
                    (case replica_loop c a mgr pdb temp an3
                            (members @ [(str_nat repl, None)]) repls of
                       (r, ev') \<Rightarrow>
                         (r, (ev @ [LogError (''forces or traj not found for '' @ pdb
                                        @ '' '' @ temp @ '' '' @ str_nat repl)]) @ ev'))))"
  proof (intro conjI impI)
    assume h: "getTrajFiles c mgr pdb temp repl = Inl (AssertionError m)"
    show "replica_step c a mgr pdb temp an members repl =
              (Inr (an, members @ [(str_nat repl, None)]),
               [CreateGroup [pdb, temp_group_name temp, str_nat repl],
                Collab (GetTrajFiles pdb temp repl), LogError m])"
      using 1 [OF h] .
    show "replica_loop c a mgr pdb temp an members (repl # repls) =
              (case replica_loop c a mgr pdb temp an (members @ [(str_nat repl, None)]) repls of
                 (r, ev) \<Rightarrow>
                   (r, [CreateGroup [pdb, temp_group_name temp, str_nat repl],
                        Collab (GetTrajFiles pdb temp repl), LogError m] @ ev))"
      using 1 [OF h] by (simp split: prod.splits)
  next
    assume h: "getTrajFiles c mgr pdb temp repl = Inr trajFiles
            \<and> computeProperties c an = Inr an1
            \<and> trajAnalysis c an1 trajFiles = Inr an2
            \<and> trajAnalysis c an2 (map (replace ''9.xtc'' ''8.vel.dcd'') trajFiles) = Inr an3
            \<and> (\<not> hasattr_forces c an3 \<or> \<not> hasattr_traj c an3)"
    then obtain ev where s: "replica_step c a mgr pdb temp an members repl =
                     (Inr (an3, members @ [(str_nat repl, None)]),
                      ev @ [LogError (''forces or traj not found for '' @ pdb
                                        @ '' '' @ temp @ '' '' @ str_nat repl)])"
      using 2 by blast
    show "\<exists>ev. replica_step c a mgr pdb temp an members repl =
                     (Inr (an3, members @ [(str_nat repl, None)]),
                      ev @ [LogError (''forces or traj not found for '' @ pdb
                                        @ '' '' @ temp @ '' '' @ str_nat repl)])
                \<and> replica_loop c a mgr pdb temp an members (repl # repls) =
                    (case replica_loop c a mgr pdb temp an3
                            (members @ [(str_nat repl, None)]) repls of
                       (r, ev') \<Rightarrow>
                         (r, (ev @ [LogError (''forces or traj not found for '' @ pdb
                                        @ '' '' @ temp @ '' '' @ str_nat repl)]) @ ev'))"
      using s by (intro exI [of _ ev]) (simp split: prod.splits)
  qed
  have loop: "replica_loop c a mgr pdb temp an members (repl # repls) = (Inl e, ev)"
    if "replica_step c a mgr pdb temp an members repl = (Inl e, ev)" for ev
    using that by simp
  have r1: "\<exists>ev. replica_step c a mgr pdb temp an members repl = (Inl e, ev)"
    if "getTrajFiles c mgr pdb temp repl = Inl e \<and> (\<forall>m'. e \<noteq> AssertionError m')"
    using that g by (cases e) (auto simp: replica_step_def Let_def)
  have r2: "\<exists>ev. replica_step c a mgr pdb temp an members repl = (Inl e, ev)"
    if "getTrajFiles c mgr pdb temp repl = Inr trajFiles \<and> computeProperties c an = Inl e"
    using that g by (auto simp: replica_step_def Let_def)
  have r3: "\<exists>ev. replica_step c a mgr pdb temp an members repl = (Inl e, ev)"
    if "getTrajFiles c mgr pdb temp repl = Inr trajFiles
            \<and> computeProperties c an = Inr an1
            \<and> trajAnalysis c an1 trajFiles = Inl e"
    using that g by (auto simp: replica_step_def Let_def)
  have r4: "\<exists>ev. replica_step c a mgr pdb temp an members repl = (Inl e, ev)"
    if "getTrajFiles c mgr pdb temp repl = Inr trajFiles
            \<and> computeProperties c an = Inr an1
            \<and> trajAnalysis c an1 trajFiles = Inr an2
            \<and> trajAnalysis c an2 (map (replace ''9.xtc'' ''8.vel.dcd'') trajFiles) = Inl e"
    using that g by (auto simp: replica_step_def Let_def)
  have r5: "\<exists>ev. replica_step c a mgr pdb temp an members repl = (Inl e, ev)"
    if "getTrajFiles c mgr pdb temp repl = Inr trajFiles
            \<and> computeProperties c an = Inr an1
            \<and> trajAnalysis c an1 trajFiles = Inr an2
            \<and> trajAnalysis c an2 (map (replace ''9.xtc'' ''8.vel.dcd'') trajFiles) = Inr an3
            \<and> hasattr_forces c an3 \<and> hasattr_traj c an3
            \<and> write_toH5_replica c an3 (trajAttrs a) (trajDatasets a) = Inl e"
    using that g by (auto simp: replica_step_def Let_def)
  show ?thesis using skip r1 r2 r3 r4 r5 loop by blast
qed

theorem discovery_assertion_skips_replica_witness:
  "str_nat 0 \<notin> fst ` set ([] :: (string \<times> string list option) list)
   \<and> getTrajFiles demo_collab_nofiles () ''y'' ''320'' 0
       = Inl (AssertionError ''no trajectory files'')
   \<and> replica_step demo_collab_nofiles demo_args () ''y'' ''320'' [] [] 0
       = (Inr ([], [(str_nat 0, None)]),
          [CreateGroup [''y'', temp_group_name ''320'', str_nat 0],
           Collab (GetTrajFiles ''y'' ''320'' 0), LogError ''no trajectory files''])
   \<and> getTrajFiles demo_collab_noforces () ''y'' ''320'' 0 = Inr [''y_320_0-9.xtc'']
   \<and> computeProperties demo_collab_noforces [] = Inr [''props'']
   \<and> trajAnalysis demo_collab_noforces [''props''] [''y_320_0-9.xtc''] = Inr [''props'']
   \<and> trajAnalysis demo_collab_noforces [''props'']
        (map (replace ''9.xtc'' ''8.vel.dcd'') [''y_320_0-9.xtc'']) = Inr [''props'']
   \<and> \<not> hasattr_forces demo_collab_noforces [''props'']
   \<and> fst (replica_step demo_collab_noforces demo_args () ''y'' ''320'' [] [] 0)
       = Inr ([''props''], [(str_nat 0, None)])
   \<and> getTrajFiles demo_collab_crash () ''y'' ''320'' 0 = Inr [''y_320_0-9.xtc'']
   \<and> computeProperties demo_collab_crash [] = Inr [''props'']
   \<and> trajAnalysis demo_collab_crash [''props''] [''y_320_0-9.xtc'']
       = Inl (OtherError ''corrupt trajectory'')
   \<and> fst (replica_step demo_collab_crash demo_args () ''y'' ''320'' [] [] 0)
       = Inl (OtherError ''corrupt trajectory'')
   \<and> fst (replica_loop demo_collab_crash demo_args () ''y'' ''320'' [] [] [0, 1])
       = Inl (OtherError ''corrupt trajectory'')"
proof -
  have h1: "str_nat 0 \<notin> fst ` set ([] :: (string \<times> string list option) list)" by simp
  have h2: "getTrajFiles demo_collab_nofiles () ''y'' ''320'' 0
              = Inl (AssertionError ''no trajectory files'')"
    by (simp add: demo_collab_nofiles_def)
  have s1: "replica_step demo_collab_nofiles demo_args () ''y'' ''320'' [] [] 0
       = (Inr ([], [] @ [(str_nat 0, None)]),
          [CreateGroup [''y'', temp_group_name ''320'', str_nat 0],
           Collab (GetTrajFiles ''y'' ''320'' 0), LogError ''no trajectory files''])"
    using discovery_assertion_skips_replica [OF h1, of demo_collab_nofiles "()" "''y''" "''320''"
        "''no trajectory files''" demo_args "[]"] h2
    by blast
  have g1: "getTrajFiles demo_collab_noforces () ''y'' ''320'' 0 = Inr [''y_320_0-9.xtc'']"
    by code_simp
  have g2: "computeProperties demo_collab_noforces [] = Inr [''props'']"
    by code_simp
  have g3: "trajAnalysis demo_collab_noforces [''props''] [''y_320_0-9.xtc''] = Inr [''props'']"
    by (simp add: demo_collab_noforces_def)
  have g4: "trajAnalysis demo_collab_noforces [''props'']
        (map (replace ''9.xtc'' ''8.vel.dcd'') [''y_320_0-9.xtc'']) = Inr [''props'']"
    by (simp add: demo_collab_noforces_def)
  have g5: "\<not> hasattr_forces demo_collab_noforces [''props'']"
    by (simp add: demo_collab_noforces_def demo_collab_def)
  have "\<exists>ev. replica_step demo_collab_noforces demo_args () ''y'' ''320'' [] [] 0 =
                     (Inr ([''props''], [] @ [(str_nat 0, None)]),
                      ev @ [LogError (''forces or traj not found for '' @ ''y''
                                        @ '' '' @ ''320'' @ '' '' @ str_nat 0)])"
    using discovery_assertion_skips_replica [OF h1, of demo_collab_noforces "()" "''y''" "''320''"
        _ demo_args "[]" _ "[''y_320_0-9.xtc'']" "[''props'']" "[''props'']" "[''props'']"]
      g1 g2 g3 g4 g5
    by blast
  then have s2: "fst (replica_step demo_collab_noforces demo_args () ''y'' ''320'' [] [] 0)
       = Inr ([''props''], [(str_nat 0, None)])"
    by auto
  have c1: "getTrajFiles demo_collab_crash () ''y'' ''320'' 0 = Inr [''y_320_0-9.xtc'']"
    by code_simp
  have c2: "computeProperties demo_collab_crash [] = Inr [''props'']"
    by code_simp
  have c3: "trajAnalysis demo_collab_crash [''props''] [''y_320_0-9.xtc'']
       = Inl (OtherError ''corrupt trajectory'')"
    by (simp add: demo_collab_crash_def)
  have "\<exists>ev. replica_step demo_collab_crash demo_args () ''y'' ''320'' [] [] 0
                = (Inl (OtherError ''corrupt trajectory''), ev)
            \<and> replica_loop demo_collab_crash demo_args () ''y'' ''320'' [] [] (0 # [1])
                = (Inl (OtherError ''corrupt trajectory''), ev)"
    using discovery_assertion_skips_replica
      [OF h1, where c = demo_collab_crash and mgr = "()" and pdb = "''y''" and temp = "''320''"
         and a = demo_args and an = "[]" and trajFiles = "[''y_320_0-9.xtc'']"
         and ?an1.0 = "[''props'']" and e = "OtherError ''corrupt trajectory''"
         and repls = "[1]"]
      c1 c2 c3
    by blast
  then have s3: "fst (replica_step demo_collab_crash demo_args () ''y'' ''320'' [] [] 0)
       = Inl (OtherError ''corrupt trajectory'')"
    "fst (replica_loop demo_collab_crash demo_args () ''y'' ''320'' [] [] [0, 1])
       = Inl (OtherError ''corrupt trajectory'')"
    by auto
  show ?thesis using h1 h2 s1 g1 g2 g3 g4 g5 s2 c1 c2 c3 s3 by simp
qed






















end
